theory Spec2Isabelle
  imports Complex_Main "HOL-Library.Product_Lexorder"
begin

section \<open>Scalars, vectors and matrices\<close>

text \<open>
  The three kernels of \<^verbatim>\<open>lanczosEigensolver.py\<close> are loops around calls of numpy and
  scipy. The arithmetic of the scalars is left open: a scalar is any type with the
  operations the kernels use (no law is assumed of them), so that a statement about the
  control flow of a kernel holds of IEEE doubles as it does of exact arithmetic. A
  vector is the list of its entries, a matrix the list of its rows.
\<close>

type_synonym 'a vec = "'a list"
type_synonym 'a mat = "'a list list"

datatype error = ValueError | LinAlgError | UnboundLocalError

text \<open>A Python integer literal used as a float: \<^verbatim>\<open>10\<close>, \<^verbatim>\<open>1\<close>, \<^verbatim>\<open>3000\<close>.\<close>

fun lit :: "nat \<Rightarrow> 'a::{zero,one,plus}" where
  "lit 0 = 0"
| "lit (Suc 0) = 1"
| "lit (Suc (Suc k)) = lit (Suc k) + 1"

definition ones :: "nat \<Rightarrow> 'a::one vec" where
  "ones n = replicate n 1"

definition zeros :: "nat \<Rightarrow> nat \<Rightarrow> 'a::zero mat" where
  "zeros n k = replicate n (replicate k 0)"

definition identity :: "nat \<Rightarrow> 'a::{zero,one} mat" where
  "identity n = map (\<lambda>i. map (\<lambda>j. if i = j then 1 else 0) [0..<n]) [0..<n]"

definition shape0 :: "'a mat \<Rightarrow> nat" where
  "shape0 A = length A"

definition shape1 :: "'a mat \<Rightarrow> nat" where
  "shape1 A = (case A of [] \<Rightarrow> 0 | r # _ \<Rightarrow> length r)"

definition dot :: "'a::{zero,plus,times} vec \<Rightarrow> 'a vec \<Rightarrow> 'a" where
  "dot u v = foldl (+) 0 (map2 (*) u v)"

definition matvec :: "'a::{zero,plus,times} mat \<Rightarrow> 'a vec \<Rightarrow> 'a vec" where
  "matvec A v = map (\<lambda>row. dot row v) A"

definition column :: "'a mat \<Rightarrow> nat \<Rightarrow> 'a vec" where
  "column A j = map (\<lambda>row. row ! j) A"

definition mT :: "'a mat \<Rightarrow> 'a mat" where
  "mT A = map (column A) [0..<shape1 A]"

definition matmul :: "'a::{zero,plus,times} mat \<Rightarrow> 'a mat \<Rightarrow> 'a mat" where
  "matmul A B = map (\<lambda>row. map (\<lambda>col. dot row col) (mT B)) A"

definition diagonal :: "'a mat \<Rightarrow> 'a vec" where
  "diagonal A = map (\<lambda>i. A ! i ! i) [0..<min (shape0 A) (shape1 A)]"

definition vsub :: "'a::minus vec \<Rightarrow> 'a vec \<Rightarrow> 'a vec" where
  "vsub u v = map2 (-) u v"

definition smul :: "'a::times \<Rightarrow> 'a vec \<Rightarrow> 'a vec" where
  "smul c v = map (\<lambda>x. c * x) v"

definition vdiv :: "'a::inverse vec \<Rightarrow> 'a \<Rightarrow> 'a vec" where
  "vdiv v c = map (\<lambda>x. x / c) v"

definition msub :: "'a::minus mat \<Rightarrow> 'a mat \<Rightarrow> 'a mat" where
  "msub A B = map2 vsub A B"

definition mscale :: "'a::times \<Rightarrow> 'a mat \<Rightarrow> 'a mat" where
  "mscale c A = map (smul c) A"

definition hstack :: "'a mat \<Rightarrow> 'a vec \<Rightarrow> 'a mat" where
  "hstack V q = map2 (\<lambda>row x. row @ [x]) V q"

definition set_column0 :: "'a mat \<Rightarrow> 'a vec \<Rightarrow> 'a mat" where
  "set_column0 V q = map2 (\<lambda>row x. x # tl row) V q"

definition is_mat :: "nat \<Rightarrow> nat \<Rightarrow> 'a mat \<Rightarrow> bool" where
  "is_mat n k A \<longleftrightarrow> length A = n \<and> (\<forall>row \<in> set A. length row = k)"

section \<open>The numerical library\<close>

text \<open>
  \<^verbatim>\<open>scipy.linalg.norm\<close>, \<^verbatim>\<open>numpy.linalg.qr\<close>, \<^verbatim>\<open>numpy.linalg.solve\<close> and
  \<^verbatim>\<open>numpy.sort\<close> are not code of the repository: the kernels take them as a record of
  functions. \<open>norm\<close> and \<open>solve\<close> can raise (\<^verbatim>\<open>ValueError\<close> on a non-finite entry,
  \<^verbatim>\<open>LinAlgError\<close> on a singular matrix), so they return a sum.
\<close>

record 'a numlib =
  norm :: "'a vec \<Rightarrow> error + 'a"
  qr :: "'a mat \<Rightarrow> 'a mat \<times> 'a mat"
  solve :: "'a mat \<Rightarrow> 'a vec \<Rightarrow> error + 'a vec"
  sort :: "'a vec \<Rightarrow> 'a vec"

section \<open>NSI: normalized simultaneous (QR) iteration\<close>

text \<open>
  The local variables of \<^verbatim>\<open>NSI\<close> that live across iterations. \<^verbatim>\<open>lam\<close> is unbound until
  the loop body has run once.
\<close>

record 'a nsi_state =
  nsi_Q :: "'a mat"
  nsi_residual :: "'a"
  nsi_lprev :: "'a vec"
  nsi_ctr :: int
  nsi_lam :: "'a vec option"

definition NSI_init :: "'a::{zero,one,plus} mat \<Rightarrow> 'a nsi_state" where
  "NSI_init A = (let m = shape0 A in
     \<lparr>nsi_Q = identity m, nsi_residual = lit 10, nsi_lprev = ones m, nsi_ctr = 0,
       nsi_lam = None\<rparr>)"

text \<open>One pass through the body of the \<^verbatim>\<open>while\<close> loop, up to \<^verbatim>\<open>ctr += 1\<close>.\<close>

definition NSI_body ::
  "'a::{zero,one,plus,minus,times} numlib \<Rightarrow> 'a mat \<Rightarrow> 'a nsi_state \<Rightarrow> error + 'a nsi_state" where
  "NSI_body L A st =
     (let Q' = fst (qr L (matmul A (nsi_Q st)));
          lam' = diagonal (matmul (matmul (mT Q') A) Q')
      in case norm L (vsub (nsi_lprev st) (sort L lam')) of
           Inl e \<Rightarrow> Inl e
         | Inr res \<Rightarrow> Inr \<lparr>nsi_Q = Q', nsi_residual = res, nsi_lprev = sort L lam',
                           nsi_ctr = nsi_ctr st + 1, nsi_lam = Some lam'\<rparr>)"

partial_function (option) NSI_loop ::
  "'a::{zero,one,plus,minus,times,ord} numlib \<Rightarrow> 'a mat \<Rightarrow> 'a \<Rightarrow> int \<Rightarrow> 'a nsi_state
     \<Rightarrow> (error + 'a nsi_state) option" where
  "NSI_loop L A tol maxiter st =
     (case norm L [nsi_residual st] of
        Inl e \<Rightarrow> Some (Inl e)
      | Inr nr \<Rightarrow>
          if nr > tol then
            (case NSI_body L A st of
               Inl e \<Rightarrow> Some (Inl e)
             | Inr st' \<Rightarrow> if nsi_ctr st' = maxiter then Some (Inr st')
                          else NSI_loop L A tol maxiter st')
          else Some (Inr st))"

text \<open>\<^verbatim>\<open>return(lam)\<close>: the name is unbound when the loop body never ran.\<close>

definition return_lam :: "'a nsi_state \<Rightarrow> error + 'a vec" where
  "return_lam st = (case nsi_lam st of None \<Rightarrow> Inl UnboundLocalError | Some l \<Rightarrow> Inr l)"

definition NSI ::
  "'a::{zero,one,plus,minus,times,ord} numlib \<Rightarrow> 'a mat \<Rightarrow> 'a \<Rightarrow> int \<Rightarrow> (error + 'a vec) option" where
  "NSI L A tol maxiter =
     (case NSI_loop L A tol maxiter (NSI_init A) of
        None \<Rightarrow> None
      | Some (Inl e) \<Rightarrow> Some (Inl e)
      | Some (Inr st) \<Rightarrow> Some (return_lam st))"

section \<open>IPI: inverse power iteration with shift\<close>

record 'a ipi_state =
  ipi_x :: "'a vec"
  ipi_lam_old :: "'a"
  ipi_err :: "'a"
  ipi_lam :: "'a option"

text \<open>The body of the \<^verbatim>\<open>while\<close> loop; \<open>B\<close> and \<open>s\<close> are fixed before the loop starts.\<close>

definition IPI_body ::
  "'a::{zero,one,plus,minus,times,inverse,abs} numlib \<Rightarrow> 'a mat \<Rightarrow> 'a \<Rightarrow> 'a ipi_state
     \<Rightarrow> error + 'a ipi_state" where
  "IPI_body L B s st =
     (case norm L (ipi_x st) of
        Inl e \<Rightarrow> Inl e
      | Inr nx \<Rightarrow>
          (let u = vdiv (ipi_x st) nx in
           case solve L B u of
             Inl e \<Rightarrow> Inl e
           | Inr x' \<Rightarrow>
               (let mu = dot u x';
                    lam' = 1 / mu + s;
                    err' = abs (ipi_lam_old st - lam')
                in Inr \<lparr>ipi_x = x', ipi_lam_old = lam', ipi_err = err',
                         ipi_lam = Some lam'\<rparr>)))"

partial_function (option) IPI_loop ::
  "'a::{zero,one,plus,minus,times,inverse,abs,ord} numlib \<Rightarrow> 'a mat \<Rightarrow> 'a \<Rightarrow> 'a
     \<Rightarrow> 'a ipi_state \<Rightarrow> (error + 'a ipi_state) option" where
  "IPI_loop L B s tol st =
     (if ipi_err st > tol then
        (case IPI_body L B s st of
           Inl e \<Rightarrow> Some (Inl e)
         | Inr st' \<Rightarrow> IPI_loop L B s tol st')
      else Some (Inr st))"

definition IPI_shift :: "'a::{zero,one,plus,uminus}" where
  "IPI_shift = - lit 3000"

definition IPI_B :: "'a::{zero,one,plus,minus,uminus,times} mat \<Rightarrow> 'a mat" where
  "IPI_B A = msub A (mscale IPI_shift (identity (shape0 A)))"

definition IPI_init :: "'a::{zero,one} mat \<Rightarrow> 'a ipi_state" where
  "IPI_init A = \<lparr>ipi_x = ones (shape0 A), ipi_lam_old = 1, ipi_err = 1, ipi_lam = None\<rparr>"

text \<open>
  \<^verbatim>\<open>IPI(A, tol, maxiter)\<close>. The run keeps the final state; \<open>IPI\<close> is what
  \<^verbatim>\<open>return(lam)\<close> gives the caller.
\<close>

definition IPI_run ::
  "'a::{zero,one,plus,minus,uminus,times,inverse,abs,ord} numlib \<Rightarrow> 'a mat \<Rightarrow> 'a \<Rightarrow> int
     \<Rightarrow> (error + 'a ipi_state) option" where
  "IPI_run L A tol maxiter = IPI_loop L (IPI_B A) IPI_shift tol (IPI_init A)"

definition return_ipi_lam :: "'a ipi_state \<Rightarrow> error + 'a" where
  "return_ipi_lam st = (case ipi_lam st of None \<Rightarrow> Inl UnboundLocalError | Some l \<Rightarrow> Inr l)"

definition IPI ::
  "'a::{zero,one,plus,minus,uminus,times,inverse,abs,ord} numlib \<Rightarrow> 'a mat \<Rightarrow> 'a \<Rightarrow> int
     \<Rightarrow> (error + 'a) option" where
  "IPI L A tol maxiter =
     (case IPI_run L A tol maxiter of
        None \<Rightarrow> None
      | Some (Inl e) \<Rightarrow> Some (Inl e)
      | Some (Inr st) \<Rightarrow> Some (return_ipi_lam st))"

subsection \<open>The iterator as the specification words it\<close>


section \<open>LanczosTri: Lanczos tridiagonalization\<close>








section \<open>A concrete arithmetic: exact reals with infinities and NaN\<close>

text \<open>
  The kernels are run on concrete matrices over this type: real numbers without
  rounding, with the values numpy produces on a division by zero (\<open>x/0\<close> is an infinity,
  \<open>0/0\<close> is NaN) and IEEE's rules for them. Zero has no sign here.
\<close>

datatype fl = Fin real | PInf | NInf | NaN

fun fl_neg :: "fl \<Rightarrow> fl" where
  "fl_neg (Fin a) = Fin (- a)"
| "fl_neg PInf = NInf"
| "fl_neg NInf = PInf"
| "fl_neg NaN = NaN"

fun fl_add :: "fl \<Rightarrow> fl \<Rightarrow> fl" where
  "fl_add (Fin a) (Fin b) = Fin (a + b)"
| "fl_add NaN _ = NaN"
| "fl_add _ NaN = NaN"
| "fl_add PInf NInf = NaN"
| "fl_add NInf PInf = NaN"
| "fl_add PInf _ = PInf"
| "fl_add _ PInf = PInf"
| "fl_add NInf _ = NInf"
| "fl_add _ NInf = NInf"

fun fl_inf :: "bool \<Rightarrow> fl" where
  "fl_inf True = PInf"
| "fl_inf False = NInf"

fun fl_mul :: "fl \<Rightarrow> fl \<Rightarrow> fl" where
  "fl_mul (Fin a) (Fin b) = Fin (a * b)"
| "fl_mul NaN _ = NaN"
| "fl_mul _ NaN = NaN"
| "fl_mul PInf (Fin b) = (if b = 0 then NaN else fl_inf (0 < b))"
| "fl_mul NInf (Fin b) = (if b = 0 then NaN else fl_inf (b < 0))"
| "fl_mul (Fin a) PInf = (if a = 0 then NaN else fl_inf (0 < a))"
| "fl_mul (Fin a) NInf = (if a = 0 then NaN else fl_inf (a < 0))"
| "fl_mul PInf PInf = PInf"
| "fl_mul NInf NInf = PInf"
| "fl_mul PInf NInf = NInf"
| "fl_mul NInf PInf = NInf"

fun fl_inv :: "fl \<Rightarrow> fl" where
  "fl_inv (Fin a) = (if a = 0 then PInf else Fin (1 / a))"
| "fl_inv PInf = Fin 0"
| "fl_inv NInf = Fin 0"
| "fl_inv NaN = NaN"

fun fl_less :: "fl \<Rightarrow> fl \<Rightarrow> bool" where
  "fl_less (Fin a) (Fin b) = (a < b)"
| "fl_less NaN _ = False"
| "fl_less _ NaN = False"
| "fl_less NInf b = (b \<noteq> NInf)"
| "fl_less a PInf = (a \<noteq> PInf)"
| "fl_less _ _ = False"

fun fl_abs :: "fl \<Rightarrow> fl" where
  "fl_abs (Fin a) = Fin \<bar>a\<bar>"
| "fl_abs NaN = NaN"
| "fl_abs _ = PInf"

instantiation fl :: "{zero,one,plus,minus,uminus,times,inverse,abs,ord}"
begin

definition zero_fl :: fl where "zero_fl = Fin 0"
definition one_fl :: fl where "one_fl = Fin 1"
definition plus_fl :: "fl \<Rightarrow> fl \<Rightarrow> fl" where "plus_fl a b = fl_add a b"
definition uminus_fl :: "fl \<Rightarrow> fl" where "uminus_fl a = fl_neg a"
definition minus_fl :: "fl \<Rightarrow> fl \<Rightarrow> fl" where "minus_fl a b = fl_add a (fl_neg b)"
definition times_fl :: "fl \<Rightarrow> fl \<Rightarrow> fl" where "times_fl a b = fl_mul a b"
definition inverse_fl :: "fl \<Rightarrow> fl" where "inverse_fl a = fl_inv a"
definition divide_fl :: "fl \<Rightarrow> fl \<Rightarrow> fl" where "divide_fl a b = fl_mul a (fl_inv b)"
definition abs_fl :: "fl \<Rightarrow> fl" where "abs_fl a = fl_abs a"
definition less_fl :: "fl \<Rightarrow> fl \<Rightarrow> bool" where "less_fl a b = fl_less a b"
definition less_eq_fl :: "fl \<Rightarrow> fl \<Rightarrow> bool" where
  "less_eq_fl a b \<longleftrightarrow> fl_less a b \<or> (a = b \<and> a \<noteq> NaN)"

instance ..

end

fun is_finite :: "fl \<Rightarrow> bool" where
  "is_finite (Fin a) = True"
| "is_finite _ = False"

fun fl_val :: "fl \<Rightarrow> real" where
  "fl_val (Fin a) = a"
| "fl_val _ = 0"

subsection \<open>The library on this arithmetic\<close>

text \<open>
  \<^verbatim>\<open>scipy.linalg.norm\<close> checks its argument (\<^verbatim>\<open>check_finite=True\<close>) and raises
  \<^verbatim>\<open>ValueError\<close> on an infinity or a NaN; otherwise it is the Euclidean norm.
\<close>

definition euclid :: "fl vec \<Rightarrow> fl" where
  "euclid v =
     (if list_all is_finite v then Fin (sqrt (sum_list (map (\<lambda>a. fl_val a * fl_val a) v)))
      else NaN)"

definition exact_norm :: "fl vec \<Rightarrow> error + fl" where
  "exact_norm v = (if list_all is_finite v then Inr (euclid v) else Inl ValueError)"

text \<open>\<^verbatim>\<open>numpy.sort\<close>: ascending, NaN last.\<close>

fun np_key :: "fl \<Rightarrow> nat \<times> real" where
  "np_key NInf = (0, 0)"
| "np_key (Fin a) = (1, a)"
| "np_key PInf = (2, 0)"
| "np_key NaN = (3, 0)"

definition exact_sort :: "fl vec \<Rightarrow> fl vec" where
  "exact_sort v = sort_key np_key v"

text \<open>
  \<^verbatim>\<open>numpy.linalg.solve\<close> raises \<^verbatim>\<open>LinAlgError\<close> on a singular matrix; on exact
  arithmetic the solution of a regular system is the one of Cramer's rule.
\<close>

definition drop_nth :: "nat \<Rightarrow> 'a list \<Rightarrow> 'a list" where
  "drop_nth j xs = take j xs @ drop (Suc j) xs"

fun det :: "fl mat \<Rightarrow> fl" where
  "det [] = 1"
| "det (row # rows) =
     foldl (+) 0
       (map (\<lambda>j. (if even j then row ! j else - (row ! j)) * det (map (drop_nth j) rows))
            [0..<length row])"

definition replace_column :: "'a mat \<Rightarrow> nat \<Rightarrow> 'a vec \<Rightarrow> 'a mat" where
  "replace_column B j u = map2 (\<lambda>row b. row[j := b]) B u"

definition exact_solve :: "fl mat \<Rightarrow> fl vec \<Rightarrow> error + fl vec" where
  "exact_solve B u =
     (if det B = 0 then Inl LinAlgError
      else Inr (map (\<lambda>j. det (replace_column B j u) / det B) [0..<length B]))"

text \<open>
  A QR factorization by Gram-Schmidt on the columns (the reduced form, as
  \<^verbatim>\<open>numpy.linalg.qr\<close> returns by default). Where a column depends on the ones before
  it, the basis is completed by the first unit vector that does not.
\<close>

definition gs_residual :: "fl vec list \<Rightarrow> fl vec \<Rightarrow> fl vec" where
  "gs_residual qs a = foldl (\<lambda>w q. vsub w (smul (dot q a) q)) a qs"

definition unit_vec :: "nat \<Rightarrow> nat \<Rightarrow> fl vec" where
  "unit_vec n i = map (\<lambda>j. if j = i then 1 else 0) [0..<n]"

definition gs_step :: "fl vec list \<Rightarrow> fl vec \<Rightarrow> fl vec" where
  "gs_step qs a =
     (let cands = a # map (unit_vec (length a)) [0..<length a]
      in case filter (\<lambda>w. euclid w \<noteq> 0) (map (gs_residual qs) cands) of
           [] \<Rightarrow> a
         | w # _ \<Rightarrow> vdiv w (euclid w))"

fun gram_schmidt :: "fl vec list \<Rightarrow> fl vec list \<Rightarrow> fl vec list" where
  "gram_schmidt qs [] = qs"
| "gram_schmidt qs (a # as) = gram_schmidt (qs @ [gs_step qs a]) as"

definition exact_qr :: "fl mat \<Rightarrow> fl mat \<times> fl mat" where
  "exact_qr M =
     (let Qm = mT (gram_schmidt [] (take (shape0 M) (mT M)))
      in (Qm, matmul (mT Qm) M))"

definition exact :: "fl numlib" where
  "exact = \<lparr>norm = exact_norm, qr = exact_qr, solve = exact_solve, sort = exact_sort\<rparr>"

section \<open>Evaluating the kernels on the concrete arithmetic\<close>

lemmas fl_arith = zero_fl_def one_fl_def plus_fl_def uminus_fl_def minus_fl_def times_fl_def
  inverse_fl_def divide_fl_def abs_fl_def less_fl_def less_eq_fl_def

lemmas mat_defs = ones_def zeros_def identity_def shape0_def shape1_def dot_def matvec_def
  column_def mT_def matmul_def diagonal_def vsub_def smul_def vdiv_def msub_def mscale_def
  hstack_def set_column0_def

lemmas exact_defs = exact_def exact_norm_def euclid_def exact_sort_def exact_solve_def
  exact_qr_def gs_step_def gs_residual_def unit_vec_def drop_nth_def replace_column_def

lemma lit_fl: "(lit k :: fl) = Fin (real k)"
  by (induction k rule: lit.induct) (simp_all add: fl_arith)

lemma exact_norm_single: "norm exact [Fin a] = Inr (Fin \<bar>a\<bar>)"
  by (simp add: exact_defs)

subsection \<open>\<open>NSI\<close> on \<open>[[5]]\<close> and on \<open>diag(2, 1)\<close>\<close>

lemma NSI_5_step1:
  "NSI_body exact [[Fin 5]] (NSI_init [[Fin 5]]) =
     Inr \<lparr>nsi_Q = [[Fin 1]], nsi_residual = Fin 4, nsi_lprev = [Fin 5], nsi_ctr = 1,
           nsi_lam = Some [Fin 5]\<rparr>"
  by (simp add: NSI_body_def NSI_init_def mat_defs exact_defs fl_arith Let_def lit_fl)

lemma NSI_5_step2:
  "NSI_body exact [[Fin 5]]
     \<lparr>nsi_Q = [[Fin 1]], nsi_residual = Fin 4, nsi_lprev = [Fin 5], nsi_ctr = 1,
       nsi_lam = Some [Fin 5]\<rparr> =
     Inr \<lparr>nsi_Q = [[Fin 1]], nsi_residual = Fin 0, nsi_lprev = [Fin 5], nsi_ctr = 2,
           nsi_lam = Some [Fin 5]\<rparr>"
  by (simp add: NSI_body_def mat_defs exact_defs fl_arith Let_def)

lemma NSI_init_residual: "nsi_residual (NSI_init A) = lit 10"
  by (simp add: NSI_init_def Let_def)

lemma NSI_5_capped:
  "NSI_loop exact [[Fin 5]] (Fin (1 / 10 ^ 14)) 1 (NSI_init [[Fin 5]]) =
     Some (Inr \<lparr>nsi_Q = [[Fin 1]], nsi_residual = Fin 4, nsi_lprev = [Fin 5], nsi_ctr = 1,
                 nsi_lam = Some [Fin 5]\<rparr>)"
  apply (subst NSI_loop.simps)
  apply (simp add: NSI_5_step1 NSI_init_residual lit_fl exact_norm_single fl_arith)
  done

lemma NSI_5_converged:
  "maxiter \<noteq> 1 \<Longrightarrow> maxiter \<noteq> 2 \<Longrightarrow>
   NSI_loop exact [[Fin 5]] (Fin (1 / 10 ^ 14)) maxiter (NSI_init [[Fin 5]]) =
     Some (Inr \<lparr>nsi_Q = [[Fin 1]], nsi_residual = Fin 0, nsi_lprev = [Fin 5], nsi_ctr = 2,
                 nsi_lam = Some [Fin 5]\<rparr>)"
  apply (subst NSI_loop.simps)
  apply (simp add: NSI_5_step1 NSI_init_residual lit_fl exact_norm_single fl_arith)
  apply (subst NSI_loop.simps)
  apply (simp add: NSI_5_step2 exact_norm_single fl_arith)
  apply (subst NSI_loop.simps)
  apply (simp add: exact_norm_single fl_arith)
  done





section \<open>Properties of \<open>NSI\<close>\<close>

lemma NSI_body_ctr: "NSI_body L A st = Inr st' \<Longrightarrow> nsi_ctr st' = nsi_ctr st + 1"
  by (auto simp: NSI_body_def Let_def split: sum.splits)



lemma NSI_loop_exit:
  assumes "NSI_loop L A tol maxiter st = Some y"
  shows "maxiter \<le> 0 \<longrightarrow> 0 \<le> nsi_ctr st \<longrightarrow>
         (\<forall>st'. y = Inr st' \<longrightarrow> (\<exists>nr. norm L [nsi_residual st'] = Inr nr \<and> \<not> nr > tol))"
proof (rule NSI_loop.raw_induct[where P = "\<lambda>L A tol maxiter st y. maxiter \<le> 0 \<longrightarrow> 0 \<le> nsi_ctr st \<longrightarrow>
         (\<forall>st'. y = Inr st' \<longrightarrow> (\<exists>nr. norm L [nsi_residual st'] = Inr nr \<and> \<not> nr > tol))", OF _ assms], goal_cases)
  case (1 loop L A tol maxiter st y)
  show ?case
  proof (intro impI allI)
    fix st' assume m: "maxiter \<le> 0" and c: "0 \<le> nsi_ctr st" and y: "y = Inr st'"
    show "\<exists>nr. norm L [nsi_residual st'] = Inr nr \<and> \<not> nr > tol"
    proof (cases "norm L [nsi_residual st]")
      case (Inl e)
      with 1(2) y show ?thesis by simp
    next
      case (Inr nr)
      show ?thesis
      proof (cases "nr > tol")
        case False
        with 1(2) Inr y show ?thesis by auto
      next
        case True
        show ?thesis
        proof (cases "NSI_body L A st")
          case (Inl e)
          with 1(2) Inr True y show ?thesis by simp
        next
          case b: (Inr s1)
          have c1: "nsi_ctr s1 = nsi_ctr st + 1" using b by (rule NSI_body_ctr)
          with m c have ne: "nsi_ctr s1 \<noteq> maxiter" by simp
          with 1(2) Inr True b have "loop L A tol maxiter s1 = Some y" by simp
          from 1(1)[OF this] m c c1 y show ?thesis by simp
        qed
      qed
    qed
  qed
qed







text \<open>
  The run of \<open>NSI\<close> on \<open>[[5]]\<close> that stops at the cap \<open>maxiter = 1\<close> (its residual is
  still 4) and the run that converges return the same value.
\<close>

lemma NSI_capped_run_looks_converged:
  "NSI exact [[Fin 5]] (Fin (1 / 10 ^ 14)) 1 = Some (Inr [Fin 5])"
  "NSI exact [[Fin 5]] (Fin (1 / 10 ^ 14)) 5000 = Some (Inr [Fin 5])"
  using NSI_5_capped NSI_5_converged [of 5000] by (simp_all add: NSI_def return_lam_def)

text \<open>
  Claim C10. The cap of \<open>NSI\<close> works for \<open>maxiter \<ge> 1\<close> only. The counter starts at 0
  and is incremented before the test \<^verbatim>\<open>ctr == maxiter\<close>, so for \<open>maxiter \<le> 0\<close> the test
  never succeeds: whenever the loop ends normally, it ended through the tolerance test,
  with the norm of the residual not above \<open>tol\<close>.
\<close>

theorem NSI_cap_needs_positive_maxiter:
  assumes "maxiter \<le> 0" and "NSI_loop L A tol maxiter (NSI_init A) = Some (Inr st)"
  shows "\<exists>nr. norm L [nsi_residual st] = Inr nr \<and> \<not> nr > tol"
proof -
  have "nsi_ctr (NSI_init A) = 0" by (simp add: NSI_init_def Let_def)
  with NSI_loop_exit[OF assms(2)] assms(1) show ?thesis by simp
qed


theorem NSI_cap_needs_positive_maxiter_witness:
  "(0::int) \<le> 0 \<and>
   NSI_loop exact [[Fin 5]] (Fin (1 / 10 ^ 14)) 0 (NSI_init [[Fin 5]]) =
     Some (Inr \<lparr>nsi_Q = [[Fin 1]], nsi_residual = Fin 0, nsi_lprev = [Fin 5], nsi_ctr = 2,
                 nsi_lam = Some [Fin 5]\<rparr>) \<and>
   (\<exists>nr. norm exact [Fin 0] = Inr nr \<and> \<not> nr > Fin (1 / 10 ^ 14))"
proof -
  have h1: "(0::int) \<le> 0" by simp
  have h2: "NSI_loop exact [[Fin 5]] (Fin (1 / 10 ^ 14)) 0 (NSI_init [[Fin 5]]) =
     Some (Inr \<lparr>nsi_Q = [[Fin 1]], nsi_residual = Fin 0, nsi_lprev = [Fin 5], nsi_ctr = 2,
                 nsi_lam = Some [Fin 5]\<rparr>)"
    by (rule NSI_5_converged) simp_all
  from NSI_cap_needs_positive_maxiter [OF h1 h2] h1 h2 show ?thesis by simp
qed





section \<open>Properties of \<open>IPI\<close>\<close>

lemma IPI_loop_exit:
  assumes "IPI_loop L B s tol st = Some y"
  shows "\<forall>st'. y = Inr st' \<longrightarrow> \<not> ipi_err st' > tol"
proof (rule IPI_loop.raw_induct[where P = "\<lambda>L B s tol st y. \<forall>st'. y = Inr st' \<longrightarrow> \<not> ipi_err st' > tol",
      OF _ assms], goal_cases)
  case (1 loop L B s tol st y)
  show ?case
  proof (cases "ipi_err st > tol")
    case False
    with 1(2) show ?thesis by auto
  next
    case True
    show ?thesis
    proof (cases "IPI_body L B s st")
      case (Inl e)
      with 1(2) True show ?thesis by auto
    next
      case (Inr s1)
      with 1(2) True have "loop L B s tol s1 = Some y" by simp
      from 1(1)[OF this] show ?thesis .
    qed
  qed
qed


subsection \<open>\<open>IPI\<close> on a 1\<times>1 matrix\<close>

lemma IPI_B_1x1: "IPI_B [[Fin c]] = [[Fin (c + 3000)]]"
  by (simp add: IPI_B_def IPI_shift_def mat_defs fl_arith lit_fl)

lemma IPI_shift_fl: "(IPI_shift :: fl) = Fin (- 3000)"
  by (simp add: IPI_shift_def fl_arith lit_fl)

lemma IPI_body_1x1:
  assumes norm1: "\<And>a. norm L [Fin a] = Inr (Fin \<bar>a\<bar>)"
      and solve1: "\<And>u. solve L [[Fin (c + 3000)]] [Fin u] = Inr [Fin (u / (c + 3000))]"
      and c: "c \<noteq> - 3000" and a: "a \<noteq> 0"
  shows "IPI_body L [[Fin (c + 3000)]] (Fin (- 3000))
           \<lparr>ipi_x = [Fin a], ipi_lam_old = Fin p, ipi_err = e, ipi_lam = m\<rparr> =
         Inr \<lparr>ipi_x = [Fin (a / \<bar>a\<bar> / (c + 3000))], ipi_lam_old = Fin c,
               ipi_err = Fin \<bar>p - c\<bar>, ipi_lam = Some (Fin c)\<rparr>"
proof -
  have nz: "c + 3000 \<noteq> 0" using c by simp
  have "a / \<bar>a\<bar> = 1 \<or> a / \<bar>a\<bar> = - 1" using a by (cases "0 < a") simp_all
  then show ?thesis
  proof
    assume u: "a / \<bar>a\<bar> = 1"
    show ?thesis using a nz
      by (simp add: IPI_body_def norm1 solve1 mat_defs fl_arith Let_def u)
  next
    assume u: "a / \<bar>a\<bar> = - 1"
    show ?thesis using a nz
      by (simp add: IPI_body_def norm1 solve1 mat_defs fl_arith Let_def u)
  qed
qed



lemma exact_solve_1x1: "b \<noteq> 0 \<Longrightarrow> solve exact [[Fin b]] [Fin u] = Inr [Fin (u / b)]"
  by (simp add: exact_defs mat_defs fl_arith)



lemma IPI_5_run:
  "IPI_run exact [[Fin 5]] (Fin (1 / 10 ^ 14)) maxiter =
     Some (Inr \<lparr>ipi_x = [Fin (1 / 3005)], ipi_lam_old = Fin 5, ipi_err = Fin 0,
                 ipi_lam = Some (Fin 5)\<rparr>)"
proof -
  have b1: "IPI_body exact [[Fin 3005]] (Fin (- 3000)) (IPI_init [[Fin 5]]) =
      Inr \<lparr>ipi_x = [Fin (1 / 3005)], ipi_lam_old = Fin 5, ipi_err = Fin 4,
            ipi_lam = Some (Fin 5)\<rparr>"
    unfolding IPI_init_def
    using IPI_body_1x1[of exact 5 1 1 1 None]
    by (simp add: exact_norm_single exact_solve_1x1 mat_defs fl_arith)
  have b2: "IPI_body exact [[Fin 3005]] (Fin (- 3000))
      \<lparr>ipi_x = [Fin (1 / 3005)], ipi_lam_old = Fin 5, ipi_err = Fin 4, ipi_lam = Some (Fin 5)\<rparr> =
      Inr \<lparr>ipi_x = [Fin (1 / 3005)], ipi_lam_old = Fin 5, ipi_err = Fin 0,
            ipi_lam = Some (Fin 5)\<rparr>"
    using IPI_body_1x1[of exact 5 "1 / 3005" 5 "Fin 4" "Some (Fin 5)"]
    by (simp add: exact_norm_single exact_solve_1x1)
  have e0: "ipi_err (IPI_init [[Fin 5]]) = Fin 1" by (simp add: IPI_init_def fl_arith)
  show ?thesis
    unfolding IPI_run_def IPI_B_1x1 IPI_shift_fl
    apply (subst IPI_loop.simps)
    apply (simp add: e0 b1 fl_arith)
    apply (subst IPI_loop.simps)
    apply (simp add: b2 fl_arith)
    apply (subst IPI_loop.simps)
    apply (simp add: fl_arith)
    done
qed



text \<open>
  Claim C3. \<open>IPI\<close> never tests \<open>maxiter\<close>: the result of a run, final state
  included, is the same for every value of the argument, and a run that ends normally
  has ended through the only test of the loop, \<^verbatim>\<open>err > tol\<close> being false.
\<close>

theorem IPI_never_tests_maxiter:
  "IPI L A tol maxiter = IPI L A tol maxiter' \<and>
   IPI_run L A tol maxiter = IPI_run L A tol maxiter' \<and>
   (\<forall>st. IPI_run L A tol maxiter = Some (Inr st) \<longrightarrow> \<not> ipi_err st > tol)"
  by (auto simp: IPI_def IPI_run_def dest!: IPI_loop_exit)


theorem IPI_never_tests_maxiter_witness:
  "IPI exact [[Fin 5]] (Fin (1 / 10 ^ 14)) 1 = IPI exact [[Fin 5]] (Fin (1 / 10 ^ 14)) 5000 \<and>
   IPI_run exact [[Fin 5]] (Fin (1 / 10 ^ 14)) 1 =
     Some (Inr \<lparr>ipi_x = [Fin (1 / 3005)], ipi_lam_old = Fin 5, ipi_err = Fin 0,
                 ipi_lam = Some (Fin 5)\<rparr>) \<and>
   \<not> Fin 0 > Fin (1 / 10 ^ 14)"
  using IPI_never_tests_maxiter [of exact "[[Fin 5]]" "Fin (1 / 10 ^ 14)" 1 5000]
    IPI_5_run [of 1]
  by auto

text \<open>
  With \<open>maxiter = 1\<close> the loop on \<open>[[5]]\<close> still runs twice: after the first pass the
  error is 4, and the state \<open>IPI\<close> ends in is the one after the second.
\<close>

lemma IPI_runs_past_maxiter:
  "IPI_body exact (IPI_B [[Fin 5]]) IPI_shift (IPI_init [[Fin 5]]) =
     Inr \<lparr>ipi_x = [Fin (1 / 3005)], ipi_lam_old = Fin 5, ipi_err = Fin 4,
           ipi_lam = Some (Fin 5)\<rparr>"
  "IPI_run exact [[Fin 5]] (Fin (1 / 10 ^ 14)) 1 =
     Some (Inr \<lparr>ipi_x = [Fin (1 / 3005)], ipi_lam_old = Fin 5, ipi_err = Fin 0,
                 ipi_lam = Some (Fin 5)\<rparr>)"
  using IPI_body_1x1 [of exact 5 1 1 1 None] IPI_5_run [of 1]
  by (simp_all add: IPI_B_1x1 IPI_shift_fl IPI_init_def exact_norm_single exact_solve_1x1
      mat_defs fl_arith)








section \<open>The three kernels on a 1\<times>1 matrix\<close>









end
